theory Spec2Isabelle
  imports Main
begin

section \<open>JavaScript values of the request and response bodies\<close>

text \<open>
  The handlers of \<^verbatim>\<open>src/unnamed/part_000\<close> read fields of JSON bodies and test them
  with JavaScript truthiness. A JSON value is modelled by the datatype below; numbers
  are the integer-valued ones (Telegram identifiers, millisecond timestamps). A field
  that is absent reads as \<^verbatim>\<open>undefined\<close>, which is \<open>None\<close> of \<open>json option\<close>.
\<close>

datatype json =
    JNull
  | JBool bool
  | JNum int
  | JStr string
  | JArr "json list"
  | JObj "(string \<times> json) list"

text \<open>Truthiness of a value that may be \<^verbatim>\<open>undefined\<close>: the test of \<^verbatim>\<open>!x\<close>, \<^verbatim>\<open>x && y\<close>, \<^verbatim>\<open>x || y\<close>.\<close>

fun truthy :: "json option \<Rightarrow> bool" where
  "truthy None = False"
| "truthy (Some JNull) = False"
| "truthy (Some (JBool b)) = b"
| "truthy (Some (JNum n)) = (n \<noteq> 0)"
| "truthy (Some (JStr s)) = (s \<noteq> [])"
| "truthy (Some (JArr xs)) = True"
| "truthy (Some (JObj kvs)) = True"

text \<open>\<^verbatim>\<open>a || b\<close> returns \<open>a\<close> when it is truthy and \<open>b\<close> otherwise.\<close>

definition js_or :: "json option \<Rightarrow> json option \<Rightarrow> json option" where
  "js_or a b = (if truthy a then a else b)"

text \<open>
  Property access \<^verbatim>\<open>x?.name\<close> for the names the handlers use (\<^verbatim>\<open>id\<close>,
  \<^verbatim>\<open>username\<close>, \<^verbatim>\<open>description\<close>, the body fields): \<^verbatim>\<open>undefined\<close> on
  \<^verbatim>\<open>undefined\<close> and \<^verbatim>\<open>null\<close>, the field of an object, and \<^verbatim>\<open>undefined\<close> on every
  other value, which has no own property of these names. A parsed object lists each
  property once.
\<close>

fun js_get :: "json option \<Rightarrow> string \<Rightarrow> json option" where
  "js_get (Some (JObj kvs)) name = map_of kvs name"
| "js_get v name = None"

text \<open>
  Decimal rendering of an integer. A template literal prints a number with
  \<^verbatim>\<open>Number::toString\<close>: a safe integer (at most \<open>2\<^sup>5\<^sup>3 - 1\<close> in absolute value) prints with
  all its decimal digits; a larger number prints the shortest digits that read back as
  the same double, in exponent form from \<open>10\<^sup>2\<^sup>1\<close> on. That rendering belongs to the
  language, not to this repository: it is the argument \<open>numStr\<close> of every definition
  that converts a value to a string, and is consulted outside the safe range only. The
  evaluations further down pass \<open>int_to_string\<close> for it; their numbers are safe
  integers.
\<close>

definition digit_char :: "nat \<Rightarrow> char" where
  "digit_char d = ''0123456789'' ! d"

fun nat_to_string :: "nat \<Rightarrow> string" where
  "nat_to_string n =
     (if n < 10 then [digit_char n] else nat_to_string (n div 10) @ [digit_char (n mod 10)])"

declare nat_to_string.simps [simp del]

definition int_to_string :: "int \<Rightarrow> string" where
  "int_to_string i = (if i < 0 then CHR ''-'' # nat_to_string (nat (- i)) else nat_to_string (nat i))"

definition Number_toString :: "(int \<Rightarrow> string) \<Rightarrow> int \<Rightarrow> string" where
  "Number_toString numStr n =
     (if \<bar>n\<bar> \<le> 9007199254740991 then int_to_string n else numStr n)"

fun join_comma :: "string list \<Rightarrow> string" where
  "join_comma [] = []"
| "join_comma [s] = s"
| "join_comma (s # t # ss) = s @ CHR '','' # join_comma (t # ss)"

datatype js_error = TypeError | ReferenceError

text \<open>The conversions of the elements of an array, in order: the first one that throws wins.\<close>

fun all_converted :: "(js_error + string) list \<Rightarrow> js_error + string list" where
  "all_converted [] = Inr []"
| "all_converted (Inl err # rs) = Inl err"
| "all_converted (Inr s # rs) =
     (case all_converted rs of Inl err \<Rightarrow> Inl err | Inr ss \<Rightarrow> Inr (s # ss))"

text \<open>
  \<^verbatim>\<open>String(x)\<close>, the conversion a template literal \<^verbatim>\<open>`${x}`\<close> applies. An array prints
  as its elements joined by commas, with \<^verbatim>\<open>null\<close> printed empty. An object is
  converted through its \<^verbatim>\<open>toString\<close> and \<^verbatim>\<open>valueOf\<close>: without an own property
  \<^verbatim>\<open>toString\<close> the inherited method answers \<^verbatim>\<open>[object Object]\<close>; with one (a parsed
  value, never callable) the inherited \<^verbatim>\<open>valueOf\<close> returns the object itself or is
  shadowed as well, and the conversion throws a \<^verbatim>\<open>TypeError\<close>.
\<close>

fun js_toString :: "(int \<Rightarrow> string) \<Rightarrow> json \<Rightarrow> js_error + string" where
  "js_toString numStr JNull = Inr ''null''"
| "js_toString numStr (JBool b) = Inr (if b then ''true'' else ''false'')"
| "js_toString numStr (JNum n) = Inr (Number_toString numStr n)"
| "js_toString numStr (JStr s) = Inr s"
| "js_toString numStr (JArr xs) =
     (case all_converted (map (\<lambda>x. if x = JNull then Inr [] else js_toString numStr x) xs) of
        Inl err \<Rightarrow> Inl err
      | Inr ss \<Rightarrow> Inr (join_comma ss))"
| "js_toString numStr (JObj kvs) =
     (if map_of kvs ''toString'' = None then Inr ''[object Object]'' else Inl TypeError)"

definition js_String :: "(int \<Rightarrow> string) \<Rightarrow> json option \<Rightarrow> js_error + string" where
  "js_String numStr v = (case v of None \<Rightarrow> Inr ''undefined'' | Some x \<Rightarrow> js_toString numStr x)"

text \<open>\<^verbatim>\<open>s.includes(p)\<close> on strings: \<open>p\<close> occurs in \<open>s\<close> as a contiguous substring.\<close>

fun starts_with :: "string \<Rightarrow> string \<Rightarrow> bool" where
  "starts_with s [] = True"
| "starts_with [] (p # ps) = False"
| "starts_with (c # cs) (p # ps) = (c = p \<and> starts_with cs ps)"

fun str_includes :: "string \<Rightarrow> string \<Rightarrow> bool" where
  "str_includes [] p = (p = [])"
| "str_includes (c # cs) p = (starts_with (c # cs) p \<or> str_includes cs p)"

text \<open>
  \<^verbatim>\<open>d?.includes(p)\<close> on a value that came out of a JSON payload: \<^verbatim>\<open>undefined\<close> (falsy)
  on \<^verbatim>\<open>undefined\<close> and \<^verbatim>\<open>null\<close>, the substring test on a string, the membership test
  on an array, and a \<^verbatim>\<open>TypeError\<close> on a number, a boolean or an object, none of
  which has a callable \<^verbatim>\<open>includes\<close>.
\<close>

fun opt_includes :: "json option \<Rightarrow> string \<Rightarrow> js_error + bool" where
  "opt_includes None p = Inr False"
| "opt_includes (Some JNull) p = Inr False"
| "opt_includes (Some (JStr s)) p = Inr (str_includes s p)"
| "opt_includes (Some (JArr xs)) p = Inr (JStr p \<in> set xs)"
| "opt_includes (Some (JBool b)) p = Inl TypeError"
| "opt_includes (Some (JNum n)) p = Inl TypeError"
| "opt_includes (Some (JObj kvs)) p = Inl TypeError"

section \<open>The process-wide state\<close>

text \<open>
  \<^verbatim>\<open>const sentMessages = new Map()\<close> maps a notification key to the timestamp of the
  last successful send. A JavaScript \<^verbatim>\<open>Map\<close> keeps its entries in insertion order with
  unique keys, so it is an association list; \<^verbatim>\<open>set\<close> overwrites in place or appends.
\<close>

type_synonym cache = "(string \<times> int) list"

definition Map_get :: "cache \<Rightarrow> string \<Rightarrow> int option" where
  "Map_get m k = map_of m k"

definition Map_has :: "cache \<Rightarrow> string \<Rightarrow> bool" where
  "Map_has m k = (map_of m k \<noteq> None)"

fun Map_set :: "cache \<Rightarrow> string \<Rightarrow> int \<Rightarrow> cache" where
  "Map_set [] k v = [(k, v)]"
| "Map_set ((k', v') # m) k v = (if k' = k then (k, v) # m else (k', v') # Map_set m k v)"

definition Map_delete :: "cache \<Rightarrow> string \<Rightarrow> cache" where
  "Map_delete m k = filter (\<lambda>e. fst e \<noteq> k) m"

definition Map_size :: "cache \<Rightarrow> nat" where
  "Map_size m = length m"

definition Map_clear :: "cache \<Rightarrow> cache" where
  "Map_clear m = []"

record server_state =
  isHealthy :: bool
  sentMessages :: cache

section \<open>The deduplication cache: check and write\<close>

text \<open>
  The check of \<^verbatim>\<open>/api/sendWelcomeMessage\<close> (lines 144-145):
  \<^verbatim>\<open>lastSent && (Date.now() - lastSent) < 24 * 60 * 60 * 1000\<close> means "already sent".
  \<open>shouldSend\<close> is its negation, with the window and the clock reading as arguments.
  \<^verbatim>\<open>lastSent && ...\<close> is a truthiness test: it fails on \<^verbatim>\<open>undefined\<close> (no record)
  and also on a recorded timestamp \<open>0\<close>.
\<close>

definition shouldSend :: "string \<Rightarrow> int \<Rightarrow> int \<Rightarrow> cache \<Rightarrow> bool" where
  "shouldSend messageKey windowMillis now sm =
     (case Map_get sm messageKey of
        None \<Rightarrow> True
      | Some lastSent \<Rightarrow> \<not> (lastSent \<noteq> 0 \<and> now - lastSent < windowMillis))"

text \<open>The write of lines 176 and 248: \<^verbatim>\<open>sentMessages.set(key, Date.now())\<close>.\<close>

definition markSent :: "string \<Rightarrow> int \<Rightarrow> cache \<Rightarrow> cache" where
  "markSent key timestamp sm = Map_set sm key timestamp"

definition welcomeWindow :: int where
  "welcomeWindow = 24 * 60 * 60 * 1000"

section \<open>Requests, responses and the outbound send\<close>

datatype res_body = Json json | Text string

record http_response =
  status :: nat
  body :: res_body

text \<open>
  \<^verbatim>\<open>JSON.stringify\<close> drops a property whose value is \<^verbatim>\<open>undefined\<close>.
\<close>

definition field :: "string \<Rightarrow> json option \<Rightarrow> (string \<times> json) list" where
  "field name v = (case v of None \<Rightarrow> [] | Some x \<Rightarrow> [(name, x)])"

definition res_json :: "nat \<Rightarrow> (string \<times> json) list \<Rightarrow> http_response" where
  "res_json code kvs = \<lparr>status = code, body = Json (JObj kvs)\<rparr>"

definition res_send :: "nat \<Rightarrow> string \<Rightarrow> http_response" where
  "res_send code txt = \<lparr>status = code, body = Text txt\<rparr>"

text \<open>
  The rejection of \<^verbatim>\<open>await axios.post(...)\<close>: \<open>err_data\<close> is
  \<^verbatim>\<open>error.response?.data\<close> (\<open>None\<close> when there is no response), \<open>err_message\<close> is
  \<^verbatim>\<open>error.message\<close>. The outcome of the call is decided by the messaging platform and
  is an argument of each handler.
\<close>

record send_error =
  err_data :: "json option"
  err_message :: string

datatype send_outcome = SendOk | SendFailed send_error

text \<open>
  An outbound \<^verbatim>\<open>sendMessage\<close> call, with the parts of its payload that depend on the
  request: the \<^verbatim>\<open>chat_id\<close>, and for the welcome text the greeted name
  (\<^verbatim>\<open>firstName || username\<close>) and whether a referrer was given, for the referral text
  \<^verbatim>\<open>newUser.username\<close>, for the direct message its text. The fixed wording, the
  parse mode and the inline keyboard of each template are constants of the source.
\<close>

datatype outbound =
    WelcomeMessage "json option" "json option" bool
  | ReferralMessage "json option" "json option"
  | BotMessage "json option" "json option"

text \<open>
  What a handler does: the state it leaves, the response it sends, or the error with
  which the \<^verbatim>\<open>async\<close> handler rejects without having sent a response, and the
  outbound calls it made.
\<close>

type_synonym handler_result = "server_state \<times> (js_error + http_response) \<times> outbound list"

text \<open>
  The \<^verbatim>\<open>catch\<close> blocks test
  \<^verbatim>\<open>error.response?.data?.description?.includes('bot was blocked')\<close>.
\<close>

definition blocked_test :: "send_error \<Rightarrow> js_error + bool" where
  "blocked_test e = opt_includes (js_get (err_data e) ''description'') ''bot was blocked''"

text \<open>\<^verbatim>\<open>error.response?.data?.description || error.message\<close>.\<close>

definition error_text :: "send_error \<Rightarrow> json option" where
  "error_text e = js_or (js_get (err_data e) ''description'') (Some (JStr (err_message e)))"

text \<open>
  The error object a \<^verbatim>\<open>catch\<close> block sees when a string conversion inside its
  \<^verbatim>\<open>try\<close> block threw: a \<^verbatim>\<open>TypeError\<close> has no \<^verbatim>\<open>response\<close>, and its message is
  the one of the V8 engine.
\<close>

definition conversion_error :: send_error where
  "conversion_error =
     \<lparr>err_data = None, err_message = ''Cannot convert object to primitive value''\<rparr>"

section \<open>\<^verbatim>\<open>POST /api/sendWelcomeMessage\<close>\<close>

text \<open>
  The cache key \<^verbatim>\<open>`welcome_${userId}`\<close> of line 143; the conversion of \<^verbatim>\<open>userId\<close> may
  throw.
\<close>

definition messageKey :: "(int \<Rightarrow> string) \<Rightarrow> json option \<Rightarrow> js_error + string" where
  "messageKey numStr userId =
     (case js_String numStr userId of
        Inl err \<Rightarrow> Inl err
      | Inr s \<Rightarrow> Inr (''welcome_'' @ s))"

text \<open>
  The \<^verbatim>\<open>catch\<close> block of lines 185-204, entered with the error \<open>e\<close>, the state and the
  outbound calls made so far. Its log line reads \<^verbatim>\<open>req.body.userId\<close>, which is in
  scope. A \<^verbatim>\<open>description\<close> without a callable \<^verbatim>\<open>includes\<close> makes the block itself
  throw: the handler rejects and sends no response.
\<close>

definition welcome_catch :: "send_error \<Rightarrow> server_state \<Rightarrow> outbound list \<Rightarrow> handler_result" where
  "welcome_catch e st calls =
     (case blocked_test e of
        Inl err \<Rightarrow> (st, Inl err, calls)
      | Inr True \<Rightarrow>
          (st, Inr (res_json 200
             [(''success'', JBool True),
              (''message'', JStr ''User blocked bot''),
              (''botBlocked'', JBool True)]), calls)
      | Inr False \<Rightarrow>
          (st, Inr (res_json 200
             ([(''success'', JBool True),
               (''message'', JStr ''Welcome message queued'')]
              @ field ''error'' (error_text e))), calls))"

text \<open>
  The handler, lines 134-205. \<open>now\<close> is the clock reading of the duplicate check,
  \<open>now'\<close> the one of the cache write after the awaited send. The template literals
  convert \<^verbatim>\<open>userId\<close> (line 143), \<^verbatim>\<open>firstName || username\<close> (line 153) and, in the
  log line after the cache write, a truthy \<^verbatim>\<open>referrerId\<close> (line 178); a conversion
  that throws enters the \<^verbatim>\<open>catch\<close> block from where it stands.
\<close>

definition sendWelcomeMessage ::
  "(int \<Rightarrow> string) \<Rightarrow> int \<Rightarrow> int \<Rightarrow> (string \<times> json) list \<Rightarrow> send_outcome \<Rightarrow> server_state
     \<Rightarrow> handler_result" where
  "sendWelcomeMessage numStr now now' req_body outcome st =
     (let userId = map_of req_body ''userId'';
          username = map_of req_body ''username'';
          firstName = map_of req_body ''firstName'';
          referrerId = map_of req_body ''referrerId''
      in if \<not> truthy userId then
           (st, Inr (res_json 400 [(''error'', JStr ''User ID is required'')]), [])
         else
           case messageKey numStr userId of
             Inl err \<Rightarrow> welcome_catch conversion_error st []
           | Inr key \<Rightarrow>
               if \<not> shouldSend key welcomeWindow now (sentMessages st) then
                 (st, Inr (res_json 200
                    [(''success'', JBool True),
                     (''message'', JStr ''Welcome message already sent recently''),
                     (''alreadySent'', JBool True)]), [])
               else
                 case js_String numStr (js_or firstName username) of
                   Inl err \<Rightarrow> welcome_catch conversion_error st []
                 | Inr name \<Rightarrow>
                     let call = WelcomeMessage userId (js_or firstName username) (truthy referrerId)
                     in case outcome of
                          SendFailed e \<Rightarrow> welcome_catch e st [call]
                        | SendOk \<Rightarrow>
                            let st' = st\<lparr>sentMessages := markSent key now' (sentMessages st)\<rparr>
                            in case (if truthy referrerId then js_String numStr referrerId
                                     else Inr []) of
                                 Inl err \<Rightarrow> welcome_catch conversion_error st' [call]
                               | Inr logged \<Rightarrow>
                                   (st',
                                    Inr (res_json 200
                                      [(''success'', JBool True),
                                       (''message'', JStr ''Welcome message sent successfully''),
                                       (''hasReferrer'', JBool (truthy referrerId))]),
                                    [call]))"

section \<open>\<^verbatim>\<open>POST /api/sendReferralNotification\<close>\<close>

text \<open>
  The cache key \<^verbatim>\<open>`referral_${referrerId}_${newUser.id}`\<close> of line 217; either
  conversion may throw.
\<close>

definition notificationKey ::
  "(int \<Rightarrow> string) \<Rightarrow> json option \<Rightarrow> json option \<Rightarrow> js_error + string" where
  "notificationKey numStr referrerId newUser =
     (case js_String numStr referrerId of
        Inl err \<Rightarrow> Inl err
      | Inr r \<Rightarrow>
          (case js_String numStr (js_get newUser ''id'') of
             Inl err \<Rightarrow> Inl err
           | Inr i \<Rightarrow> Inr (''referral_'' @ r @ ''_'' @ i)))"

text \<open>
  The \<^verbatim>\<open>catch\<close> block of lines 258-275. \<^verbatim>\<open>referrerId\<close> and \<^verbatim>\<open>newUser\<close> are
  \<^verbatim>\<open>const\<close> declarations of the \<^verbatim>\<open>try\<close> block. The blocked branch first evaluates
  \<^verbatim>\<open>console.log(`Referrer ${referrerId} has blocked the bot`)\<close> (line 262), where
  \<^verbatim>\<open>referrerId\<close> is not in scope and no outer binding of that name exists: the
  evaluation throws a \<^verbatim>\<open>ReferenceError\<close> before the
  \<^verbatim>\<open>return res.status(200).json({..., botBlocked: true})\<close> of lines 263-267 is reached.
  The handler then rejects; what the runtime does with the rejected promise is not part
  of the handler.
\<close>

definition referral_catch :: "send_error \<Rightarrow> server_state \<Rightarrow> outbound list \<Rightarrow> handler_result" where
  "referral_catch e st calls =
     (case blocked_test e of
        Inl err \<Rightarrow> (st, Inl err, calls)
      | Inr True \<Rightarrow> (st, Inl ReferenceError, calls)
      | Inr False \<Rightarrow>
          (st, Inr (res_json 200
             ([(''success'', JBool True),
               (''message'', JStr ''Referral notification queued'')]
              @ field ''error'' (error_text e))), calls))"

text \<open>
  The handler, lines 208-276. The duplicate check is
  \<^verbatim>\<open>sentMessages.has(notificationKey)\<close>: it reads no clock. The template literals
  convert \<^verbatim>\<open>referrerId\<close> and \<^verbatim>\<open>newUser.id\<close> (line 217) and \<^verbatim>\<open>newUser.username\<close>
  (line 227); the log line after the cache write converts the first two again, which
  cannot throw there.
\<close>

definition sendReferralNotification ::
  "(int \<Rightarrow> string) \<Rightarrow> int \<Rightarrow> (string \<times> json) list \<Rightarrow> send_outcome \<Rightarrow> server_state
     \<Rightarrow> handler_result" where
  "sendReferralNotification numStr now' req_body outcome st =
     (let referrerId = map_of req_body ''referrerId'';
          newUser = map_of req_body ''newUser''
      in if \<not> truthy referrerId \<or> \<not> truthy newUser then
           (st, Inr (res_json 400
              [(''error'', JStr ''Referrer ID and new user data are required'')]), [])
         else
           case notificationKey numStr referrerId newUser of
             Inl err \<Rightarrow> referral_catch conversion_error st []
           | Inr key \<Rightarrow>
               if Map_has (sentMessages st) key then
                 (st, Inr (res_json 200
                    [(''success'', JBool True),
                     (''message'', JStr ''Referral notification already sent''),
                     (''alreadySent'', JBool True)]), [])
               else
                 case js_String numStr (js_get newUser ''username'') of
                   Inl err \<Rightarrow> referral_catch conversion_error st []
                 | Inr name \<Rightarrow>
                     let call = ReferralMessage referrerId (js_get newUser ''username'')
                     in case outcome of
                          SendFailed e \<Rightarrow> referral_catch e st [call]
                        | SendOk \<Rightarrow>
                            (st\<lparr>sentMessages := markSent key now' (sentMessages st)\<rparr>,
                             Inr (res_json 200
                               ([(''success'', JBool True),
                                 (''message'', JStr ''Referral notification sent successfully'')]
                                @ field ''referrerId'' referrerId
                                @ field ''newUserId'' (js_get newUser ''id''))),
                             [call]))"

section \<open>\<^verbatim>\<open>POST /api/sendBotMessage\<close>\<close>

text \<open>
  The \<^verbatim>\<open>catch\<close> block of lines 328-340. As in the referral handler, the blocked
  branch starts with \<^verbatim>\<open>console.log(`User ${telegramId} has blocked the bot`)\<close>
  (line 332) on a \<^verbatim>\<open>telegramId\<close> declared inside the \<^verbatim>\<open>try\<close> block, and throws
  before line 333.
\<close>

definition botMessage_catch :: "send_error \<Rightarrow> server_state \<Rightarrow> outbound list \<Rightarrow> handler_result" where
  "botMessage_catch e st calls =
     (case blocked_test e of
        Inl err \<Rightarrow> (st, Inl err, calls)
      | Inr True \<Rightarrow> (st, Inl ReferenceError, calls)
      | Inr False \<Rightarrow>
          (st, Inr (res_json 500
             ([(''error'', JStr ''Failed to send message'')]
              @ field ''details'' (js_or (err_data e) (Some (JStr (err_message e)))))), calls))"

text \<open>
  The handler, lines 311-341. The log line after the send converts \<^verbatim>\<open>telegramId\<close>
  (line 325) before the response is sent.
\<close>

definition sendBotMessage ::
  "(int \<Rightarrow> string) \<Rightarrow> (string \<times> json) list \<Rightarrow> send_outcome \<Rightarrow> server_state \<Rightarrow> handler_result" where
  "sendBotMessage numStr req_body outcome st =
     (let telegramId = map_of req_body ''telegramId'';
          message = map_of req_body ''message''
      in if \<not> truthy telegramId \<or> \<not> truthy message then
           (st, Inr (res_json 400
              [(''error'', JStr ''Telegram ID and message are required'')]), [])
         else
           let call = BotMessage telegramId message
           in case outcome of
                SendFailed e \<Rightarrow> botMessage_catch e st [call]
              | SendOk \<Rightarrow>
                  (case js_String numStr telegramId of
                     Inl err \<Rightarrow> botMessage_catch conversion_error st [call]
                   | Inr logged \<Rightarrow>
                       (st, Inr (res_json 200
                          [(''success'', JBool True),
                           (''message'', JStr ''Message sent successfully'')]), [call])))"

section \<open>Administrative cache operations\<close>

text \<open>\<^verbatim>\<open>DELETE /api/clearMessageCache\<close>.\<close>

definition clearMessageCache :: "server_state \<Rightarrow> handler_result" where
  "clearMessageCache st =
     (let previousSize = Map_size (sentMessages st)
      in (st\<lparr>sentMessages := Map_clear (sentMessages st)\<rparr>,
          Inr (res_json 200
            [(''success'', JBool True),
             (''message'', JStr (''Message cache cleared ('' @ nat_to_string previousSize
                                   @ '' entries removed)''))]),
          []))"

text \<open>
  \<^verbatim>\<open>GET /api/messageCacheStats\<close>: the size and
  \<^verbatim>\<open>Array.from(sentMessages.entries()).slice(0, 10)\<close>, each entry a two-element array.
\<close>

definition cache_entry_json :: "string \<times> int \<Rightarrow> json" where
  "cache_entry_json e = JArr [JStr (fst e), JNum (snd e)]"

definition messageCacheStats :: "server_state \<Rightarrow> handler_result" where
  "messageCacheStats st =
     (st,
      Inr (res_json 200
        [(''success'', JBool True),
         (''totalEntries'', JNum (int (Map_size (sentMessages st)))),
         (''entries'', JArr (map cache_entry_json (take 10 (sentMessages st))))]),
      [])"

section \<open>The periodic sweep\<close>

text \<open>
  The hourly timer (lines 434-449) walks \<^verbatim>\<open>sentMessages.entries()\<close> and deletes, by
  key, each entry whose timestamp is below \<^verbatim>\<open>now - 7 days\<close>, counting the deletions.
  Deleting the entry under the iterator does not disturb the walk over the later
  entries, so the loop runs over the entries as they were when it started.
\<close>

fun sweep_loop :: "(string \<times> int) list \<Rightarrow> int \<Rightarrow> cache \<times> nat \<Rightarrow> cache \<times> nat" where
  "sweep_loop [] sevenDaysAgo acc = acc"
| "sweep_loop ((key, timestamp) # rest) sevenDaysAgo (sm, clearedCount) =
     (if timestamp < sevenDaysAgo
      then sweep_loop rest sevenDaysAgo (Map_delete sm key, clearedCount + 1)
      else sweep_loop rest sevenDaysAgo (sm, clearedCount))"

definition sweep :: "int \<Rightarrow> int \<Rightarrow> server_state \<Rightarrow> server_state \<times> nat" where
  "sweep retentionMillis now st =
     (let sevenDaysAgo = now - retentionMillis;
          r = sweep_loop (sentMessages st) sevenDaysAgo (sentMessages st, 0)
      in (st\<lparr>sentMessages := fst r\<rparr>, snd r))"

definition retentionWindow :: int where
  "retentionWindow = 7 * 24 * 60 * 60 * 1000"

definition cacheSweep :: "int \<Rightarrow> server_state \<Rightarrow> server_state \<times> nat" where
  "cacheSweep now st = sweep retentionWindow now st"

section \<open>Rate limiter and health endpoint\<close>

text \<open>
  \<^verbatim>\<open>app.use(limiter)\<close> is the first middleware. The \<^verbatim>\<open>express-rate-limit\<close> library
  counts the requests of a client in the current 15-minute window and calls the
  configured \<^verbatim>\<open>handler\<close> for a request whose count exceeds \<^verbatim>\<open>max\<close>; otherwise the
  request goes on (\<open>None\<close>). The count \<open>totalHits\<close>, which includes the request itself,
  is kept by the library and is an argument here. \<^verbatim>\<open>max\<close> is 100 in
  \<^verbatim>\<open>src/unnamed/part_000\<close> and 5 in \<^verbatim>\<open>src/index.js\<close>.
\<close>

definition limiter_handler :: "server_state \<Rightarrow> server_state \<times> http_response" where
  "limiter_handler st =
     (st\<lparr>isHealthy := False\<rparr>,
      res_json 429 [(''error'', JStr ''Too many requests, please try again later.'')])"

definition limiter :: "nat \<Rightarrow> server_state \<Rightarrow> server_state \<times> http_response option" where
  "limiter totalHits st =
     (if totalHits > 100 then (fst (limiter_handler st), Some (snd (limiter_handler st)))
      else (st, None))"

definition limiter_handler_index :: "server_state \<Rightarrow> server_state \<times> http_response" where
  "limiter_handler_index st =
     (st\<lparr>isHealthy := False\<rparr>, res_send 429 ''Too many requests, please try again later.'')"

definition limiter_index :: "nat \<Rightarrow> server_state \<Rightarrow> server_state \<times> http_response option" where
  "limiter_index totalHits st =
     (if totalHits > 5
      then (fst (limiter_handler_index st), Some (snd (limiter_handler_index st)))
      else (st, None))"

text \<open>
  \<^verbatim>\<open>GET /health\<close>; \<open>isoTime\<close> is \<^verbatim>\<open>new Date().toISOString()\<close>. The variant of
  \<^verbatim>\<open>src/index.js\<close> sends the status field alone.
\<close>

definition health :: "string \<Rightarrow> server_state \<Rightarrow> http_response" where
  "health isoTime st =
     res_json (if isHealthy st then 200 else 503)
       [(''status'', JStr (if isHealthy st then ''healthy'' else ''unhealthy'')),
        (''timestamp'', JStr isoTime)]"

definition health_index :: "server_state \<Rightarrow> http_response" where
  "health_index st =
     res_json (if isHealthy st then 200 else 503)
       [(''status'', JStr (if isHealthy st then ''healthy'' else ''unhealthy''))]"

section \<open>The inbound webhook endpoint\<close>

text \<open>
  \<^verbatim>\<open>bot.handleUpdate(req.body)\<close> is called without \<^verbatim>\<open>await\<close>: the handler sees only
  whether the call returned (a promise, still pending) or threw synchronously.
\<close>

datatype dispatch = Returned | Threw

text \<open>\<^verbatim>\<open>src/unnamed/part_000\<close>, lines 368-376.\<close>

definition webhook :: "dispatch \<Rightarrow> http_response" where
  "webhook d =
     (case d of
        Returned \<Rightarrow> res_send 200 ''OK''
      | Threw \<Rightarrow> res_send 500 ''Webhook processing error'')"

text \<open>
  \<^verbatim>\<open>src/index.js\<close>, lines 122-136. The handler arms a 10000 ms timer whose callback
  sends the 504, runs the \<^verbatim>\<open>try\<close> block, and disarms the timer in \<^verbatim>\<open>finally\<close>, all
  in one synchronous run. \<open>webhook_run\<close> holds the responses sent so far and the delay
  of the armed timer.
\<close>

record webhook_run =
  sent :: "http_response list"
  timer :: "nat option"

definition webhook_sync :: "dispatch \<Rightarrow> webhook_run" where
  "webhook_sync d =
     (let r0 = \<lparr>sent = [], timer = Some 10000\<rparr>;
          r1 = (case d of
                  Returned \<Rightarrow> r0\<lparr>sent := sent r0 @ [res_send 200 ''Received Telegram webhook'']\<rparr>
                | Threw \<Rightarrow> r0\<lparr>sent := sent r0 @ [res_send 500 ''Webhook processing error'']\<rparr>)
      in r1\<lparr>timer := None\<rparr>)"

text \<open>
  The event loop after the synchronous run: a timer that is still armed fires once its
  delay has passed. \<open>elapsed\<close> is the time the update processing takes.
\<close>

definition timer_expiry :: "nat \<Rightarrow> webhook_run \<Rightarrow> webhook_run" where
  "timer_expiry elapsed r =
     (case timer r of
        None \<Rightarrow> r
      | Some delay \<Rightarrow>
          if delay \<le> elapsed
          then r\<lparr>sent := sent r @ [res_send 504 ''Webhook processing timeout''], timer := None\<rparr>
          else r)"

definition webhook_index :: "dispatch \<Rightarrow> nat \<Rightarrow> webhook_run" where
  "webhook_index d elapsed = timer_expiry elapsed (webhook_sync d)"

section \<open>Webhook registration with retries\<close>

text \<open>
  One invocation of \<^verbatim>\<open>initWebhook(retries)\<close> (the same in \<^verbatim>\<open>src/index.js\<close> and
  \<^verbatim>\<open>src/unnamed/part_000\<close>), once its platform call has settled: \<open>ok\<close> tells whether
  the call succeeded. The invocation writes the health flag and may arm one timer,
  returned as the retry number and the delay of
  \<^verbatim>\<open>setTimeout(() => initWebhook(retries + 1), RETRY_TIMEOUT)\<close>. \<open>MAX_RETRIES\<close> and
  \<open>RETRY_TIMEOUT\<close> are the numbers read from the environment, 5 and 5000 by default.
\<close>

definition initWebhook ::
  "nat \<Rightarrow> int \<Rightarrow> bool \<Rightarrow> nat \<Rightarrow> server_state \<Rightarrow> server_state \<times> (nat \<times> int) option" where
  "initWebhook MAX_RETRIES RETRY_TIMEOUT ok retries st =
     (if ok then (st\<lparr>isHealthy := True\<rparr>, None)
      else
        let st' = st\<lparr>isHealthy := False\<rparr>
        in if retries < MAX_RETRIES then (st', Some (retries + 1, RETRY_TIMEOUT))
           else (st', None))"

text \<open>
  The run of the supervisor from \<^verbatim>\<open>initWebhook(retries)\<close> on, driven by the timers.
  The list holds the outcomes of the platform calls that have settled, in order. Each
  settled invocation is logged with its retry number, the health flag it leaves and the
  timer it arms; an invocation whose call has not settled has issued the call and
  changed nothing. The result is the state at the end and the log.
\<close>

datatype reg_event = Attempt nat bool "(nat \<times> int) option" | Unsettled nat

fun registration ::
  "nat \<Rightarrow> int \<Rightarrow> bool list \<Rightarrow> nat \<Rightarrow> server_state \<Rightarrow> server_state \<times> reg_event list" where
  "registration MAX_RETRIES RETRY_TIMEOUT [] retries st = (st, [Unsettled retries])"
| "registration MAX_RETRIES RETRY_TIMEOUT (ok # oks) retries st =
     (case initWebhook MAX_RETRIES RETRY_TIMEOUT ok retries st of
        (st', None) \<Rightarrow> (st', [Attempt retries (isHealthy st') None])
      | (st', Some t) \<Rightarrow>
          (let r = registration MAX_RETRIES RETRY_TIMEOUT oks (fst t) st'
           in (fst r, Attempt retries (isHealthy st') (Some t) # snd r)))"


text \<open>
  The log of \<open>n\<close> failed attempts from retry number \<open>r\<close> on, each leaving the flag
  false and arming the timer of the next retry with delay \<open>d\<close>.
\<close>

fun failed_log :: "int \<Rightarrow> nat \<Rightarrow> nat \<Rightarrow> reg_event list" where
  "failed_log d r 0 = []"
| "failed_log d r (Suc n) = Attempt r False (Some (Suc r, d)) # failed_log d (Suc r) n"

section \<open>The application: limiter first, then the route\<close>

text \<open>
  The routes of \<^verbatim>\<open>src/unnamed/part_000\<close>, the two banner routes \<^verbatim>\<open>GET /\<close> and
  \<^verbatim>\<open>GET /webhook\<close> apart, each with the inputs it takes from outside (clock
  readings, the outcome of the send, the outcome of the dispatch).
\<close>

datatype request =
    GetHealth string
  | PostSendWelcomeMessage int int "(string \<times> json) list" send_outcome
  | PostSendReferralNotification int "(string \<times> json) list" send_outcome
  | PostSendBotMessage "(string \<times> json) list" send_outcome
  | DeleteClearMessageCache
  | GetMessageCacheStats
  | PostWebhook dispatch

fun route :: "(int \<Rightarrow> string) \<Rightarrow> request \<Rightarrow> server_state \<Rightarrow> handler_result" where
  "route numStr (GetHealth isoTime) st = (st, Inr (health isoTime st), [])"
| "route numStr (PostSendWelcomeMessage now now' b outcome) st =
     sendWelcomeMessage numStr now now' b outcome st"
| "route numStr (PostSendReferralNotification now' b outcome) st =
     sendReferralNotification numStr now' b outcome st"
| "route numStr (PostSendBotMessage b outcome) st = sendBotMessage numStr b outcome st"
| "route numStr DeleteClearMessageCache st = clearMessageCache st"
| "route numStr GetMessageCacheStats st = messageCacheStats st"
| "route numStr (PostWebhook d) st = (st, Inr (webhook d), [])"

definition app :: "(int \<Rightarrow> string) \<Rightarrow> nat \<Rightarrow> request \<Rightarrow> server_state \<Rightarrow> handler_result" where
  "app numStr totalHits req st =
     (case limiter totalHits st of
        (st', Some r) \<Rightarrow> (st', Inr r, [])
      | (st', None) \<Rightarrow> route numStr req st')"

section \<open>Facts about the cache operations\<close>

lemma Map_get_Map_set: "Map_get (Map_set m k v) k' = (if k' = k then Some v else Map_get m k')"
  by (induction m) (auto simp: Map_get_def)

lemma keys_Map_set:
  "map fst (Map_set m k v) = (if k \<in> set (map fst m) then map fst m else map fst m @ [k])"
  by (induction m) force+

lemma distinct_Map_set: "distinct (map fst m) \<Longrightarrow> distinct (map fst (Map_set m k v))"
  by (simp add: keys_Map_set)

lemma distinct_Map_delete: "distinct (map fst m) \<Longrightarrow> distinct (map fst (Map_delete m k))"
  by (simp add: Map_delete_def distinct_map_filter)

text \<open>
  The unique-key invariant of the \<^verbatim>\<open>Map\<close> holds initially (the empty cache) and is
  kept by every route.
\<close>

lemma welcome_keeps_distinct_keys:
  "distinct (map fst (sentMessages st)) \<Longrightarrow>
   distinct (map fst (sentMessages (fst (sendWelcomeMessage numStr now now' b outcome st))))"
  by (auto simp: sendWelcomeMessage_def welcome_catch_def markSent_def Let_def distinct_Map_set
      split: send_outcome.splits sum.splits bool.splits)

lemma referral_keeps_distinct_keys:
  "distinct (map fst (sentMessages st)) \<Longrightarrow>
   distinct (map fst (sentMessages (fst (sendReferralNotification numStr now' b outcome st))))"
  by (auto simp: sendReferralNotification_def referral_catch_def markSent_def Let_def
        distinct_Map_set
      split: send_outcome.splits sum.splits bool.splits)

lemma botMessage_keeps_state: "fst (sendBotMessage numStr b outcome st) = st"
  by (auto simp: sendBotMessage_def botMessage_catch_def Let_def
      split: send_outcome.splits sum.splits bool.splits)

lemma route_keeps_distinct_keys:
  "distinct (map fst (sentMessages st)) \<Longrightarrow>
   distinct (map fst (sentMessages (fst (route numStr req st))))"
  by (cases req)
     (simp_all add: welcome_keeps_distinct_keys referral_keeps_distinct_keys
        botMessage_keeps_state clearMessageCache_def messageCacheStats_def Map_clear_def Let_def)

text \<open>The sweep loop deletes the keys of the old entries and counts the old entries.\<close>

lemma sweep_loop_eq:
  "sweep_loop es c (sm, n) =
     (filter (\<lambda>e. fst e \<notin> fst ` {x \<in> set es. snd x < c}) sm,
      n + length (filter (\<lambda>x. snd x < c) es))"
proof (induction es arbitrary: sm n)
  case Nil
  then show ?case by simp
next
  case (Cons a es)
  obtain k t where a: "a = (k, t)" by (cases a)
  show ?case
  proof (cases "t < c")
    case True
    have "filter (\<lambda>e. fst e \<notin> fst ` {x \<in> set es. snd x < c}) (Map_delete sm k)
        = filter (\<lambda>e. fst e \<notin> fst ` {x \<in> set (a # es). snd x < c}) sm"
      unfolding Map_delete_def filter_filter using True a
      by (intro filter_cong) (auto simp: image_iff)
    then show ?thesis using True a Cons.IH by simp
  next
    case False
    have "{x \<in> set (a # es). snd x < c} = {x \<in> set es. snd x < c}"
      using False a by auto
    then show ?thesis using False a Cons.IH by simp
  qed
qed

text \<open>With unique keys, deleting the keys of the old entries removes the old entries only.\<close>

lemma delete_old_keys_exact:
  assumes "distinct (map fst sm)"
  shows "filter (\<lambda>e. fst e \<notin> fst ` {x \<in> set sm. snd x < c}) sm = filter (\<lambda>e. \<not> snd e < c) sm"
proof (rule filter_cong[OF refl])
  fix e assume e: "e \<in> set sm"
  show "(fst e \<notin> fst ` {x \<in> set sm. snd x < c}) = (\<not> snd e < c)"
  proof
    assume "fst e \<notin> fst ` {x \<in> set sm. snd x < c}"
    then show "\<not> snd e < c" using e by auto
  next
    assume n: "\<not> snd e < c"
    show "fst e \<notin> fst ` {x \<in> set sm. snd x < c}"
    proof
      assume "fst e \<in> fst ` {x \<in> set sm. snd x < c}"
      then obtain x where x: "x \<in> set sm" "snd x < c" "fst x = fst e" by auto
      from assms x(1) e x(3) have "x = e"
        by (metis eq_key_imp_eq_value prod.collapse)
      with x(2) n show False by simp
    qed
  qed
qed

section \<open>Facts about the registration retries\<close>

lemma initWebhook_failure_retry:
  "retries < M \<Longrightarrow>
   initWebhook M d False retries st = (st\<lparr>isHealthy := False\<rparr>, Some (Suc retries, d))"
  by (simp add: initWebhook_def Let_def)

lemma initWebhook_failure_last:
  "M \<le> retries \<Longrightarrow> initWebhook M d False retries st = (st\<lparr>isHealthy := False\<rparr>, None)"
  by (simp add: initWebhook_def Let_def)




lemma registration_all_fail:
  "r + n = M \<Longrightarrow>
   registration M d (replicate n False @ False # oks) r st =
     (st\<lparr>isHealthy := False\<rparr>, failed_log d r n @ [Attempt M False None])"
proof (induction n arbitrary: r st)
  case 0
  then show ?case by (simp add: initWebhook_failure_last)
next
  case (Suc n)
  have lt: "r < M" using Suc.prems by simp
  have ih: "registration M d (replicate n False @ False # oks) (Suc r) (st\<lparr>isHealthy := False\<rparr>) =
      (st\<lparr>isHealthy := False\<rparr>, failed_log d (Suc r) n @ [Attempt M False None])"
    using Suc.IH[of "Suc r" "st\<lparr>isHealthy := False\<rparr>"] Suc.prems by simp
  show ?case by (simp add: initWebhook_failure_retry[OF lt] ih Let_def)
qed




section \<open>Facts about the handlers\<close>

text \<open>The two cache keys used in the evaluations below.\<close>

lemma messageKey_7: "messageKey numStr (Some (JNum 7)) = Inr ''welcome_7''"
  by (simp add: messageKey_def js_String_def Number_toString_def int_to_string_def
      nat_to_string.simps digit_char_def)

lemma notificationKey_1_2:
  "notificationKey numStr (Some (JNum 1))
     (Some (JObj [(''id'', JNum 2), (''username'', JStr ''bob'')])) = Inr ''referral_1_2''"
  by (simp add: notificationKey_def js_String_def Number_toString_def int_to_string_def
      nat_to_string.simps digit_char_def)

text \<open>
  A failing send leaves the whole state as it was, in both deduplicating handlers, and
  a changed state means that the send was made and succeeded.
\<close>

lemma welcome_failed_state: "fst (sendWelcomeMessage numStr now now' b (SendFailed e) st) = st"
  by (simp add: sendWelcomeMessage_def welcome_catch_def Let_def split: sum.splits bool.splits)

lemma referral_failed_state: "fst (sendReferralNotification numStr now' b (SendFailed e) st) = st"
  by (simp add: sendReferralNotification_def referral_catch_def Let_def
      split: sum.splits bool.splits)

lemma welcome_change_needs_success:
  "fst (sendWelcomeMessage numStr now now' b outcome st) \<noteq> st \<Longrightarrow>
   outcome = SendOk \<and> snd (snd (sendWelcomeMessage numStr now now' b outcome st)) \<noteq> []"
  by (cases outcome)
     (auto simp add: sendWelcomeMessage_def welcome_catch_def Let_def
       split: sum.splits bool.splits if_splits)

lemma referral_change_needs_success:
  "fst (sendReferralNotification numStr now' b outcome st) \<noteq> st \<Longrightarrow>
   outcome = SendOk \<and> snd (snd (sendReferralNotification numStr now' b outcome st)) \<noteq> []"
  by (cases outcome)
     (auto simp add: sendReferralNotification_def referral_catch_def Let_def
       split: sum.splits bool.splits if_splits)

text \<open>
  What each endpoint answers to a blocked recipient, for every request that reaches the
  send: the welcome handler answers 200 with \<^verbatim>\<open>botBlocked: true\<close>; the referral and
  the direct-message handler reject with the \<^verbatim>\<open>ReferenceError\<close> of their log line.
\<close>

lemma welcome_blocked_response:
  "blocked_test e = Inr True \<Longrightarrow>
   snd (snd (sendWelcomeMessage numStr now now' b (SendFailed e) st)) \<noteq> [] \<Longrightarrow>
   fst (snd (sendWelcomeMessage numStr now now' b (SendFailed e) st)) =
     Inr (res_json 200 [(''success'', JBool True), (''message'', JStr ''User blocked bot''),
                        (''botBlocked'', JBool True)])"
  by (auto simp add: sendWelcomeMessage_def welcome_catch_def conversion_error_def
       blocked_test_def Let_def split: if_splits sum.splits)

lemma referral_blocked_response:
  "blocked_test e = Inr True \<Longrightarrow>
   snd (snd (sendReferralNotification numStr now' b (SendFailed e) st)) \<noteq> [] \<Longrightarrow>
   fst (snd (sendReferralNotification numStr now' b (SendFailed e) st)) = Inl ReferenceError"
  by (auto simp add: sendReferralNotification_def referral_catch_def conversion_error_def
       blocked_test_def Let_def split: if_splits sum.splits)

lemma botMessage_blocked_response:
  "blocked_test e = Inr True \<Longrightarrow> snd (snd (sendBotMessage numStr b (SendFailed e) st)) \<noteq> [] \<Longrightarrow>
   fst (snd (sendBotMessage numStr b (SendFailed e) st)) = Inl ReferenceError"
  by (auto simp add: sendBotMessage_def botMessage_catch_def Let_def split: if_splits)

text \<open>
  A string conversion that throws in the \<^verbatim>\<open>try\<close> block is answered by the
  \<^verbatim>\<open>catch\<close> block as an upstream failure: no send for a bad \<^verbatim>\<open>userId\<close>.
\<close>

lemma welcome_conversion_throws:
  "truthy (map_of b ''userId'') \<Longrightarrow> messageKey numStr (map_of b ''userId'') = Inl err \<Longrightarrow>
   sendWelcomeMessage numStr now now' b outcome st =
     (st, Inr (res_json 200
        [(''success'', JBool True), (''message'', JStr ''Welcome message queued''),
         (''error'', JStr ''Cannot convert object to primitive value'')]), [])"
  by (simp add: sendWelcomeMessage_def welcome_catch_def conversion_error_def blocked_test_def
      error_text_def js_or_def field_def Let_def)

text \<open>The webhook handler of \<^verbatim>\<open>src/index.js\<close> sends one response, never the 504.\<close>

lemma webhook_index_statuses:
  "map status (sent (webhook_index d elapsed)) = [case d of Returned \<Rightarrow> 200 | Threw \<Rightarrow> 500]"
  by (cases d)
     (simp_all add: webhook_index_def webhook_sync_def timer_expiry_def res_send_def Let_def)

lemma webhook_statuses: "status (webhook d) = (case d of Returned \<Rightarrow> 200 | Threw \<Rightarrow> 500)"
  by (cases d) (simp_all add: webhook_def res_send_def)

section \<open>The claims\<close>




text \<open>
  C2. When the send fails with a "bot was blocked by the user" error, every notification
  endpoint answers 200 with a blocked indicator. Evaluation at such an error, with
  requests that pass validation and the duplicate check: the welcome handler answers 200
  with \<^verbatim>\<open>botBlocked: true\<close>; the referral handler and the direct-message handler send
  no response and reject with a \<^verbatim>\<open>ReferenceError\<close>.
\<close>

theorem blocked_recipient_evaluation:
  "sendWelcomeMessage numStr 5000 5005 [(''userId'', JNum 7)]
       (SendFailed \<lparr>err_data = Some (JObj [(''ok'', JBool False), (''error_code'', JNum 403),
                      (''description'', JStr ''Forbidden: bot was blocked by the user'')]),
                    err_message = ''Request failed with status code 403''\<rparr>)
       \<lparr>isHealthy = True, sentMessages = []\<rparr> =
     (\<lparr>isHealthy = True, sentMessages = []\<rparr>,
      Inr (res_json 200 [(''success'', JBool True), (''message'', JStr ''User blocked bot''),
                         (''botBlocked'', JBool True)]),
      [WelcomeMessage (Some (JNum 7)) None False])
   \<and> sendReferralNotification numStr 5005
       [(''referrerId'', JNum 1), (''newUser'', JObj [(''id'', JNum 2), (''username'', JStr ''bob'')])]
       (SendFailed \<lparr>err_data = Some (JObj [(''ok'', JBool False), (''error_code'', JNum 403),
                      (''description'', JStr ''Forbidden: bot was blocked by the user'')]),
                    err_message = ''Request failed with status code 403''\<rparr>)
       \<lparr>isHealthy = True, sentMessages = []\<rparr> =
     (\<lparr>isHealthy = True, sentMessages = []\<rparr>, Inl ReferenceError,
      [ReferralMessage (Some (JNum 1)) (Some (JStr ''bob''))])
   \<and> sendBotMessage numStr [(''telegramId'', JNum 1), (''message'', JStr ''hi'')]
       (SendFailed \<lparr>err_data = Some (JObj [(''ok'', JBool False), (''error_code'', JNum 403),
                      (''description'', JStr ''Forbidden: bot was blocked by the user'')]),
                    err_message = ''Request failed with status code 403''\<rparr>)
       \<lparr>isHealthy = True, sentMessages = []\<rparr> =
     (\<lparr>isHealthy = True, sentMessages = []\<rparr>, Inl ReferenceError,
      [BotMessage (Some (JNum 1)) (Some (JStr ''hi''))])"
  by (simp add: sendWelcomeMessage_def sendReferralNotification_def sendBotMessage_def Let_def
      welcome_catch_def referral_catch_def botMessage_catch_def
      messageKey_7 notificationKey_1_2 shouldSend_def Map_get_def Map_has_def blocked_test_def
      js_or_def js_String_def)

text \<open>
  The requests of this evaluation pass the validation, and the error is a blocked one;
  the referral and the direct-message handler then send no response.
\<close>

theorem blocked_recipient_evaluation_witness:
  "truthy (Some (JNum 1)) \<and> truthy (Some (JObj [(''id'', JNum 2), (''username'', JStr ''bob'')]))
   \<and> truthy (Some (JStr ''hi''))
   \<and> blocked_test \<lparr>err_data = Some (JObj [(''ok'', JBool False), (''error_code'', JNum 403),
                      (''description'', JStr ''Forbidden: bot was blocked by the user'')]),
                    err_message = ''Request failed with status code 403''\<rparr> = Inr True
   \<and> fst (snd (sendReferralNotification int_to_string 5005
       [(''referrerId'', JNum 1), (''newUser'', JObj [(''id'', JNum 2), (''username'', JStr ''bob'')])]
       (SendFailed \<lparr>err_data = Some (JObj [(''ok'', JBool False), (''error_code'', JNum 403),
                      (''description'', JStr ''Forbidden: bot was blocked by the user'')]),
                    err_message = ''Request failed with status code 403''\<rparr>)
       \<lparr>isHealthy = True, sentMessages = []\<rparr>)) = Inl ReferenceError
   \<and> fst (snd (sendBotMessage int_to_string [(''telegramId'', JNum 1), (''message'', JStr ''hi'')]
       (SendFailed \<lparr>err_data = Some (JObj [(''ok'', JBool False), (''error_code'', JNum 403),
                      (''description'', JStr ''Forbidden: bot was blocked by the user'')]),
                    err_message = ''Request failed with status code 403''\<rparr>)
       \<lparr>isHealthy = True, sentMessages = []\<rparr>)) = Inl ReferenceError"
  using blocked_recipient_evaluation[of int_to_string] by (simp add: blocked_test_def)

text \<open>
  C3. After \<open>markSent K t\<close>, \<open>shouldSend K W\<close> is false at every query time in
  \<open>[t, t + W)\<close> and true from \<open>t + W\<close> on, and it is true when there is no record for
  \<open>K\<close>. The timestamps the code writes are readings of \<^verbatim>\<open>Date.now()\<close>, which are
  not \<open>0\<close>; for such a \<open>t\<close> the result at query time \<open>q\<close> is exactly \<open>t + W \<le> q\<close>.
\<close>

theorem markSent_then_shouldSend:
  "(t \<noteq> 0 \<longrightarrow>
      (t \<le> q \<and> q < t + W \<longrightarrow> \<not> shouldSend K W q (markSent K t sm))
    \<and> (t + W \<le> q \<longrightarrow> shouldSend K W q (markSent K t sm))
    \<and> shouldSend K W q (markSent K t sm) = (t + W \<le> q))
   \<and> (Map_get sm K = None \<longrightarrow> shouldSend K W q sm)"
  by (auto simp: shouldSend_def markSent_def Map_get_Map_set)

theorem markSent_then_shouldSend_witness:
  "\<not> shouldSend ''welcome_7'' welcomeWindow 1000 (markSent ''welcome_7'' 1000 [])
   \<and> \<not> shouldSend ''welcome_7'' welcomeWindow 86400999 (markSent ''welcome_7'' 1000 [])
   \<and> shouldSend ''welcome_7'' welcomeWindow 86401000 (markSent ''welcome_7'' 1000 [])
   \<and> shouldSend ''welcome_7'' welcomeWindow 1000 []"
  using markSent_then_shouldSend[where t = 1000 and K = "''welcome_7''" and W = welcomeWindow
          and q = 1000 and sm = "[]"]
        markSent_then_shouldSend[where t = 1000 and K = "''welcome_7''" and W = welcomeWindow
          and q = 86400999 and sm = "[]"]
        markSent_then_shouldSend[where t = 1000 and K = "''welcome_7''" and W = welcomeWindow
          and q = 86401000 and sm = "[]"]
  by (simp add: welcomeWindow_def Map_get_def)



text \<open>
  C5. The webhook endpoint answers 200 on a successful dispatch, 500 when the dispatch
  throws, and 504 when the update processing exceeds the 10000 ms timeout. Evaluation of
  the handler of \<^verbatim>\<open>src/index.js\<close> at an update whose processing takes 15000 ms: the
  only response is the 200, and no timer is left armed.
\<close>

theorem webhook_timeout_evaluation:
  "sent (webhook_index Returned 15000) = [res_send 200 ''Received Telegram webhook'']
   \<and> timer (webhook_sync Returned) = None
   \<and> webhook Returned = res_send 200 ''OK''"
  by (simp add: webhook_index_def webhook_sync_def timer_expiry_def webhook_def Let_def)

text \<open>
  C6. For every cache state and retention window \<open>R\<close>, the sweep removes exactly the
  records whose timestamp is strictly less than \<open>now - R\<close> and leaves every other record
  untouched, in place and in order; the count it reports is the number removed, and the
  sizes add up.
\<close>

theorem sweep_removes_exactly_old:
  assumes "distinct (map fst (sentMessages st))"
  shows "sentMessages (fst (sweep R now st)) = filter (\<lambda>e. \<not> snd e < now - R) (sentMessages st)
     \<and> snd (sweep R now st) = length (filter (\<lambda>e. snd e < now - R) (sentMessages st))
     \<and> Map_size (sentMessages (fst (sweep R now st))) + snd (sweep R now st)
         = Map_size (sentMessages st)
     \<and> isHealthy (fst (sweep R now st)) = isHealthy st"
proof -
  have s: "sweep R now st =
      (st\<lparr>sentMessages := filter (\<lambda>e. \<not> snd e < now - R) (sentMessages st)\<rparr>,
       length (filter (\<lambda>e. snd e < now - R) (sentMessages st)))"
    by (simp add: sweep_def Let_def sweep_loop_eq delete_old_keys_exact[OF assms])
  have "length (filter (\<lambda>e. \<not> snd e < now - R) (sentMessages st))
      + length (filter (\<lambda>e. snd e < now - R) (sentMessages st)) = length (sentMessages st)"
    using sum_length_filter_compl[of "\<lambda>e. snd e < now - R" "sentMessages st"] by simp
  then show ?thesis by (simp add: s Map_size_def)
qed

theorem sweep_removes_exactly_old_witness:
  "distinct (map fst [(''welcome_1'', 1000), (''welcome_2'', 95200000), (''referral_1_2'', 600000000 :: int)])
   \<and> sentMessages (fst (cacheSweep 700000000
        \<lparr>isHealthy = True,
         sentMessages = [(''welcome_1'', 1000), (''welcome_2'', 95200000), (''referral_1_2'', 600000000)]\<rparr>))
      = [(''welcome_2'', 95200000), (''referral_1_2'', 600000000)]
   \<and> snd (cacheSweep 700000000
        \<lparr>isHealthy = True,
         sentMessages = [(''welcome_1'', 1000), (''welcome_2'', 95200000), (''referral_1_2'', 600000000)]\<rparr>)
      = 1"
  using sweep_removes_exactly_old[where R = retentionWindow and now = 700000000 and
          st = "\<lparr>isHealthy = True,
            sentMessages = [(''welcome_1'', 1000), (''welcome_2'', 95200000), (''referral_1_2'', 600000000)]\<rparr>"]
  by (simp add: cacheSweep_def retentionWindow_def)

text \<open>
  C7. A request to \<^verbatim>\<open>POST /api/sendReferralNotification\<close> whose body lacks
  \<^verbatim>\<open>referrerId\<close> or \<^verbatim>\<open>newUser\<close> (or holds a falsy value there) is answered with
  400 and an error message; no send is made and the state is unchanged.
\<close>

theorem referral_missing_field:
  "\<not> truthy (map_of b ''referrerId'') \<or> \<not> truthy (map_of b ''newUser'') \<Longrightarrow>
   sendReferralNotification numStr now' b outcome st =
     (st, Inr (res_json 400 [(''error'', JStr ''Referrer ID and new user data are required'')]), [])"
  by (auto simp: sendReferralNotification_def Let_def)

theorem referral_missing_field_witness:
  "map_of [(''newUser'', JObj [(''id'', JNum 2)])] ''referrerId'' = None
   \<and> sendReferralNotification int_to_string 5000 [(''newUser'', JObj [(''id'', JNum 2)])] SendOk
       \<lparr>isHealthy = True, sentMessages = [(''welcome_7'', 1000)]\<rparr> =
     (\<lparr>isHealthy = True, sentMessages = [(''welcome_7'', 1000)]\<rparr>,
      Inr (res_json 400 [(''error'', JStr ''Referrer ID and new user data are required'')]), [])"
  using referral_missing_field[where numStr = int_to_string
          and b = "[(''newUser'', JObj [(''id'', JNum 2)])]" and now' = 5000
          and outcome = SendOk
          and st = "\<lparr>isHealthy = True, sentMessages = [(''welcome_7'', 1000)]\<rparr>"]
  by simp

text \<open>
  C8. When a request exceeds the limiter's maximum, the server answers 429, runs no
  route, and sets the health flag to false, so that a later \<^verbatim>\<open>GET /health\<close> that
  passes the limiter reports unhealthy with status 503. The maximum is 100 in
  \<^verbatim>\<open>src/unnamed/part_000\<close> and 5 in \<^verbatim>\<open>src/index.js\<close>.
\<close>

theorem rate_limit_degrades_health:
  "(100 < totalHits \<longrightarrow>
      app numStr totalHits req st =
        (st\<lparr>isHealthy := False\<rparr>,
         Inr (res_json 429 [(''error'', JStr ''Too many requests, please try again later.'')]), [])
    \<and> (hits' \<le> 100 \<longrightarrow>
         app numStr hits' (GetHealth isoTime) (fst (app numStr totalHits req st)) =
           (st\<lparr>isHealthy := False\<rparr>,
            Inr (res_json 503 [(''status'', JStr ''unhealthy''), (''timestamp'', JStr isoTime)]),
            [])))
   \<and> (5 < totalHits \<longrightarrow>
      limiter_index totalHits st =
        (st\<lparr>isHealthy := False\<rparr>,
         Some (res_send 429 ''Too many requests, please try again later.''))
    \<and> health_index (fst (limiter_index totalHits st))
        = res_json 503 [(''status'', JStr ''unhealthy'')])"
  by (simp add: app_def limiter_def limiter_handler_def limiter_index_def
      limiter_handler_index_def health_def health_index_def)

theorem rate_limit_degrades_health_witness:
  "app int_to_string 101 GetMessageCacheStats
       \<lparr>isHealthy = True, sentMessages = [(''welcome_7'', 1000)]\<rparr> =
     (\<lparr>isHealthy = False, sentMessages = [(''welcome_7'', 1000)]\<rparr>,
      Inr (res_json 429 [(''error'', JStr ''Too many requests, please try again later.'')]), [])
   \<and> app int_to_string 1 (GetHealth ''2026-01-01T00:00:00.000Z'')
       (fst (app int_to_string 101 GetMessageCacheStats
          \<lparr>isHealthy = True, sentMessages = [(''welcome_7'', 1000)]\<rparr>)) =
     (\<lparr>isHealthy = False, sentMessages = [(''welcome_7'', 1000)]\<rparr>,
      Inr (res_json 503 [(''status'', JStr ''unhealthy''),
                         (''timestamp'', JStr ''2026-01-01T00:00:00.000Z'')]), [])
   \<and> limiter_index 6 \<lparr>isHealthy = True, sentMessages = []\<rparr> =
     (\<lparr>isHealthy = False, sentMessages = []\<rparr>,
      Some (res_send 429 ''Too many requests, please try again later.''))"
  using rate_limit_degrades_health[where numStr = int_to_string and totalHits = 101
          and req = GetMessageCacheStats
          and hits' = 1 and isoTime = "''2026-01-01T00:00:00.000Z''"
          and st = "\<lparr>isHealthy = True, sentMessages = [(''welcome_7'', 1000)]\<rparr>"]
        rate_limit_degrades_health[where numStr = int_to_string and totalHits = 6
          and req = GetMessageCacheStats
          and hits' = 1 and isoTime = "''''"
          and st = "\<lparr>isHealthy = True, sentMessages = []\<rparr>"]
  by (simp add: app_def limiter_def limiter_handler_def health_def)

text \<open>
  C9. For every prior cache state, \<^verbatim>\<open>DELETE /api/clearMessageCache\<close> followed by
  \<^verbatim>\<open>GET /api/messageCacheStats\<close> reports zero total entries and an empty sample.
\<close>

theorem clear_then_stats_empty:
  "messageCacheStats (fst (clearMessageCache st)) =
     (st\<lparr>sentMessages := []\<rparr>,
      Inr (res_json 200
             [(''success'', JBool True), (''totalEntries'', JNum 0), (''entries'', JArr [])]),
      [])"
  by (simp add: messageCacheStats_def clearMessageCache_def Let_def Map_clear_def Map_size_def)

text \<open>
  C10. The cache write happens only after the send has succeeded, and on every failing
  send, blocked recipient or other error, the handler returns without touching the
  cache. Evaluation of the referral handler on a cache that holds another record: when
  the send fails without a response from the platform, the handler answers
  \<^verbatim>\<open>Referral notification queued\<close> and the state is as it was; when the send fails
  because the recipient blocked the bot, the handler does not return: it rejects with
  the \<^verbatim>\<open>ReferenceError\<close> of line 262 and sends no response.
\<close>

theorem failed_send_evaluation:
  "sendReferralNotification numStr 5005
       [(''referrerId'', JNum 1), (''newUser'', JObj [(''id'', JNum 2), (''username'', JStr ''bob'')])]
       (SendFailed \<lparr>err_data = None, err_message = ''timeout of 5000ms exceeded''\<rparr>)
       \<lparr>isHealthy = True, sentMessages = [(''welcome_7'', 1000)]\<rparr> =
     (\<lparr>isHealthy = True, sentMessages = [(''welcome_7'', 1000)]\<rparr>,
      Inr (res_json 200
             [(''success'', JBool True), (''message'', JStr ''Referral notification queued''),
              (''error'', JStr ''timeout of 5000ms exceeded'')]),
      [ReferralMessage (Some (JNum 1)) (Some (JStr ''bob''))])
   \<and> sendReferralNotification numStr 5005
       [(''referrerId'', JNum 1), (''newUser'', JObj [(''id'', JNum 2), (''username'', JStr ''bob'')])]
       (SendFailed \<lparr>err_data = Some (JObj [(''ok'', JBool False), (''error_code'', JNum 403),
                      (''description'', JStr ''Forbidden: bot was blocked by the user'')]),
                    err_message = ''Request failed with status code 403''\<rparr>)
       \<lparr>isHealthy = True, sentMessages = [(''welcome_7'', 1000)]\<rparr> =
     (\<lparr>isHealthy = True, sentMessages = [(''welcome_7'', 1000)]\<rparr>, Inl ReferenceError,
      [ReferralMessage (Some (JNum 1)) (Some (JStr ''bob''))])"
  by (simp add: sendReferralNotification_def Let_def referral_catch_def notificationKey_1_2
      Map_has_def blocked_test_def error_text_def field_def js_or_def js_String_def)

text \<open>
  The request of this evaluation passes the validation and finds no record for its key;
  on the blocked error the result is an error, not a response.
\<close>

theorem failed_send_evaluation_witness:
  "truthy (Some (JNum 1)) \<and> truthy (Some (JObj [(''id'', JNum 2), (''username'', JStr ''bob'')]))
   \<and> \<not> Map_has [(''welcome_7'', 1000)] ''referral_1_2''
   \<and> fst (snd (sendReferralNotification int_to_string 5005
       [(''referrerId'', JNum 1), (''newUser'', JObj [(''id'', JNum 2), (''username'', JStr ''bob'')])]
       (SendFailed \<lparr>err_data = Some (JObj [(''ok'', JBool False), (''error_code'', JNum 403),
                      (''description'', JStr ''Forbidden: bot was blocked by the user'')]),
                    err_message = ''Request failed with status code 403''\<rparr>)
       \<lparr>isHealthy = True, sentMessages = [(''welcome_7'', 1000)]\<rparr>)) = Inl ReferenceError"
  using failed_send_evaluation[of int_to_string] by (simp add: Map_has_def)

end
